theory Spec2Isabelle
  imports Complex_Main
begin

section \<open>JavaScript numbers\<close>

text \<open>
  The capacity counters arrive as JSON numbers. They are modelled as reals: the
  counters of the program are small integers and percentages with a few digits, for
  which the double-precision results of the source's comparisons agree with the exact
  ones. The one place where JavaScript arithmetic leaves the reals is the division
  \<open>used / limit\<close> with a zero limit, which yields an infinity or NaN; the type
  \<open>jsnum\<close> keeps these results, and a comparison with NaN is false as in the source.
\<close>

datatype jsnum = Fin real | PosInf | NegInf | NaN

definition js_div :: "real \<Rightarrow> real \<Rightarrow> jsnum" where
  "js_div a b =
     (if b \<noteq> 0 then Fin (a / b)
      else if 0 < a then PosInf
      else if a < 0 then NegInf
      else NaN)"

fun js_times :: "jsnum \<Rightarrow> real \<Rightarrow> jsnum" where
  "js_times (Fin x) c = Fin (x * c)"
| "js_times PosInf c = (if 0 < c then PosInf else if c < 0 then NegInf else NaN)"
| "js_times NegInf c = (if 0 < c then NegInf else if c < 0 then PosInf else NaN)"
| "js_times NaN c = NaN"

fun js_gt :: "jsnum \<Rightarrow> real \<Rightarrow> bool" where
  "js_gt (Fin x) c = (c < x)"
| "js_gt PosInf c = True"
| "js_gt NegInf c = False"
| "js_gt NaN c = False"

text \<open>A field that an object may lack reads as \<open>undefined\<close>, and
  \<open>undefined > c\<close> is false.\<close>

fun undef_gt :: "real option \<Rightarrow> real \<Rightarrow> bool" where
  "undef_gt None c = False"
| "undef_gt (Some x) c = (c < x)"

section \<open>The capacity snapshot\<close>

record counter =
  used :: real
  limit :: real
  remaining :: real

text \<open>One tier's entry. The tier manager's own default object has no
  \<open>percentFull\<close> field, so the field is optional.\<close>

record tier_capacity =
  t_used :: real
  t_limit :: real
  available :: real
  percentFull :: "real option"

text \<open>\<open>tiers\<close> is the list \<open>Object.entries\<close> yields: the tier names in the order the
  object lists them, each with its entry.\<close>

record snapshot =
  clicks :: counter
  sales :: counter
  tiers :: "(string \<times> tier_capacity) list"

section \<open>CapacityMonitor\<close>

record monitor =
  currentCapacity :: "snapshot option"
  warningsShown :: "string set"

definition new_monitor :: monitor where
  "new_monitor = \<lparr>currentCapacity = None, warningsShown = {}\<rparr>"

definition clickPercent :: "snapshot \<Rightarrow> jsnum" where
  "clickPercent s = js_times (js_div (used (clicks s)) (limit (clicks s))) 100"

subsection \<open>getSystemStatus\<close>

text \<open>The message texts of the source begin with a pictograph, which is left out
  here; the rest of each text is the source's.\<close>

record system_status =
  status :: string
  color :: string
  message :: string
  percentage :: "jsnum option"

definition getSystemStatus :: "monitor \<Rightarrow> system_status" where
  "getSystemStatus m =
     (case currentCapacity m of
        None \<Rightarrow>
          \<lparr>status = ''unknown'', color = ''gray'',
           message = ''Loading system status...'', percentage = None\<rparr>
      | Some s \<Rightarrow>
          (let p = clickPercent s in
           if js_gt p 95 then
             \<lparr>status = ''critical'', color = ''red'',
              message = ''System near capacity - New signups paused'',
              percentage = Some p\<rparr>
           else if js_gt p 80 then
             \<lparr>status = ''warning'', color = ''yellow'',
              message = ''High traffic - Performance may vary'',
              percentage = Some p\<rparr>
           else
             \<lparr>status = ''healthy'', color = ''green'',
              message = ''System operating normally'',
              percentage = Some p\<rparr>))"

subsection \<open>shouldPauseSignups\<close>

text \<open>The loop over the tier entries returns at the first one above 95.\<close>

fun any_tier_over :: "real \<Rightarrow> (string \<times> tier_capacity) list \<Rightarrow> bool" where
  "any_tier_over c [] = False"
| "any_tier_over c ((tier, d) # rest) =
     (if undef_gt (percentFull d) c then True else any_tier_over c rest)"

definition shouldPauseSignups :: "monitor \<Rightarrow> bool" where
  "shouldPauseSignups m =
     (case currentCapacity m of
        None \<Rightarrow> False
      | Some s \<Rightarrow>
          if any_tier_over 95 (tiers s) then True
          else js_gt (clickPercent s) 90)"

subsection \<open>getRecommendedTier\<close>

text \<open>The loop keeps the best tier seen so far and replaces it only by an entry
  with strictly more space; it starts from \<open>'NEWBIE'\<close> with no space.\<close>

fun recommend_loop :: "(string \<times> tier_capacity) list \<Rightarrow> string \<Rightarrow> real \<Rightarrow> string" where
  "recommend_loop [] bestTier mostSpace = bestTier"
| "recommend_loop ((tier, d) # rest) bestTier mostSpace =
     (if mostSpace < available d then recommend_loop rest tier (available d)
      else recommend_loop rest bestTier mostSpace)"

definition getRecommendedTier :: "monitor \<Rightarrow> string" where
  "getRecommendedTier m =
     (case currentCapacity m of
        None \<Rightarrow> ''NEWBIE''
      | Some s \<Rightarrow> recommend_loop (tiers s) ''NEWBIE'' 0)"

subsection \<open>The warning system\<close>

text \<open>A warning's message is a template of the source; it is kept as the template's
  name with the values the template interpolates.\<close>

datatype warning_message =
    ClickCapacityAt jsnum
  | ClickCapacityCritical
  | TierPercentFull string "real option" real
  | TierNearlyFull string real

record warning =
  wtype :: string
  wtier :: "string option"
  severity :: string
  wmessage :: warning_message
  persistent :: bool

text \<open>The accumulator of one evaluation: the warnings pushed so far, each with the
  key that was added to \<open>warningsShown\<close> when it was pushed, and the set itself.\<close>

type_synonym warn_acc = "(string \<times> warning) list \<times> string set"

text \<open>Each of the four rules of \<open>checkWarnings\<close> has the shape
  \<open>if (cond && !warningsShown.has(key)) { warnings.push(w); warningsShown.add(key) }\<close>.\<close>

definition fire :: "bool \<Rightarrow> string \<Rightarrow> warning \<Rightarrow> warn_acc \<Rightarrow> warn_acc" where
  "fire cond key w acc =
     (if cond \<and> key \<notin> snd acc then (fst acc @ [(key, w)], insert key (snd acc))
      else acc)"

definition tier_warning_90 :: "string \<Rightarrow> tier_capacity \<Rightarrow> warning" where
  "tier_warning_90 tier d =
     \<lparr>wtype = ''tier'', wtier = Some tier, severity = ''warning'',
      wmessage = TierPercentFull tier (percentFull d) (available d),
      persistent = False\<rparr>"

definition tier_warning_98 :: "string \<Rightarrow> tier_capacity \<Rightarrow> warning" where
  "tier_warning_98 tier d =
     \<lparr>wtype = ''tier'', wtier = Some tier, severity = ''critical'',
      wmessage = TierNearlyFull tier (available d),
      persistent = True\<rparr>"

fun check_tiers :: "(string \<times> tier_capacity) list \<Rightarrow> warn_acc \<Rightarrow> warn_acc" where
  "check_tiers [] acc = acc"
| "check_tiers ((tier, d) # rest) acc =
     check_tiers rest
       (fire (undef_gt (percentFull d) 98) (''tier_'' @ tier @ ''_98'') (tier_warning_98 tier d)
         (fire (undef_gt (percentFull d) 90) (''tier_'' @ tier @ ''_90'') (tier_warning_90 tier d)
           acc))"

definition check_clicks :: "jsnum \<Rightarrow> warn_acc \<Rightarrow> warn_acc" where
  "check_clicks p acc =
     fire (js_gt p 95) ''clicks_95''
       \<lparr>wtype = ''clicks'', wtier = None, severity = ''critical'',
        wmessage = ClickCapacityCritical, persistent = True\<rparr>
       (fire (js_gt p 80) ''clicks_80''
         \<lparr>wtype = ''clicks'', wtier = None, severity = ''warning'',
          wmessage = ClickCapacityAt p, persistent = True\<rparr>
         acc)"

text \<open>\<open>checkWarnings\<close> returns the warnings it hands to \<open>displayWarnings\<close>, in the
  order they were pushed, and the monitor with the keys recorded.\<close>

definition checkWarnings :: "monitor \<Rightarrow> (string \<times> warning) list \<times> monitor" where
  "checkWarnings m =
     (case currentCapacity m of
        None \<Rightarrow> ([], m)
      | Some s \<Rightarrow>
          (let acc = check_tiers (tiers s)
                       (check_clicks (clickPercent s) ([], warningsShown m))
           in (fst acc, m\<lparr>warningsShown := snd acc\<rparr>)))"

definition resetWarnings :: "monitor \<Rightarrow> monitor" where
  "resetWarnings m = m\<lparr>warningsShown := {}\<rparr>"

subsection \<open>fetchCapacity\<close>

text \<open>What awaiting \<open>fetch\<close> and \<open>response.json()\<close> gives: the parsed reply, or an
  exception thrown inside the \<open>try\<close> block.\<close>

datatype exn = NetworkError | TypeError

record capacity_reply =
  cr_success :: bool
  cr_capacity :: "snapshot option"

text \<open>The result is the value returned, the warnings displayed and the monitor
  afterwards. Listeners are called between the store and the warning check; an exception
  of a listener is caught where it is called, and listeners are not modelled.\<close>

definition fetchCapacity ::
  "exn + capacity_reply \<Rightarrow> monitor \<Rightarrow> snapshot option \<times> (string \<times> warning) list \<times> monitor" where
  "fetchCapacity response m =
     (case response of
        Inl e \<Rightarrow> (None, [], m)
      | Inr data \<Rightarrow>
          if cr_success data then
            (let m1 = m\<lparr>currentCapacity := cr_capacity data\<rparr>;
                 r = checkWarnings m1
             in (cr_capacity data, fst r, snd r))
          else (None, [], m))"

text \<open>A history of the monitor: refreshes, each with what the backend answered, and
  explicit resets. The second component of the run's state lists the keys emitted since
  the last reset, oldest first.\<close>

datatype event = Refresh "exn + capacity_reply" | ResetWarnings

fun run :: "event list \<Rightarrow> monitor \<times> string list \<Rightarrow> monitor \<times> string list" where
  "run [] c = c"
| "run (Refresh response # evs) (m, emitted) =
     (let r = fetchCapacity response m
      in run evs (snd (snd r), emitted @ map fst (fst (snd r))))"
| "run (ResetWarnings # evs) (m, emitted) = run evs (resetWarnings m, [])"

section \<open>Static configuration\<close>

text \<open>\<open>CONFIG.TIERS\<close>, in the order the object declares its tiers. The display
  fields (colour, fee, feature list) are not used by the code modelled here and are
  left out. \<open>salesRequiredForUpgrade\<close> is \<open>null\<close> for the last tier.\<close>

record tier_info =
  display_name :: string
  maxAffiliates :: real
  perAffiliateClickLimit :: real
  commissionMultiplier :: real
  salesRequiredForUpgrade :: "real option"
  priority :: real

definition NEWBIE :: tier_info where
  "NEWBIE = \<lparr>display_name = ''Newbie'', maxAffiliates = 2000,
              perAffiliateClickLimit = 5, commissionMultiplier = 1,
              salesRequiredForUpgrade = Some 10, priority = 1\<rparr>"

definition ACTIVE :: tier_info where
  "ACTIVE = \<lparr>display_name = ''Active'', maxAffiliates = 400,
              perAffiliateClickLimit = 50, commissionMultiplier = 115 / 100,
              salesRequiredForUpgrade = Some 50, priority = 2\<rparr>"

definition PRO :: tier_info where
  "PRO = \<lparr>display_name = ''Pro'', maxAffiliates = 90,
           perAffiliateClickLimit = 200, commissionMultiplier = 125 / 100,
           salesRequiredForUpgrade = Some 200, priority = 3\<rparr>"

definition ELITE :: tier_info where
  "ELITE = \<lparr>display_name = ''Elite'', maxAffiliates = 10,
             perAffiliateClickLimit = 500, commissionMultiplier = 15 / 10,
             salesRequiredForUpgrade = None, priority = 4\<rparr>"

definition TIERS :: "(string \<times> tier_info) list" where
  "TIERS = [(''NEWBIE'', NEWBIE), (''ACTIVE'', ACTIVE), (''PRO'', PRO), (''ELITE'', ELITE)]"

text \<open>\<open>CONFIG.TIERS[name] || CONFIG.TIERS.NEWBIE\<close>\<close>

definition tier_info_or_newbie :: "string \<Rightarrow> tier_info" where
  "tier_info_or_newbie tierName =
     (case map_of TIERS tierName of Some i \<Rightarrow> i | None \<Rightarrow> NEWBIE)"

text \<open>In a comparison or a subtraction \<open>null\<close> converts to the number 0.\<close>

fun to_number :: "real option \<Rightarrow> real" where
  "to_number None = 0"
| "to_number (Some x) = x"

text \<open>\<open>x || d\<close> on a number: 0 is falsy. A number field that a reply lacks takes the
  same default as 0 does, so such a field is read as 0.\<close>

definition or_default :: "real \<Rightarrow> real \<Rightarrow> real" where
  "or_default x d = (if x = 0 then d else x)"

section \<open>TierManager\<close>

record tier_data =
  tier :: string
  tierInfo :: tier_info
  clicksToday :: real
  clicksLimit :: real
  clicksRemaining :: real
  salesToday :: real
  totalSales :: real
  tierProgress :: real
  nextTier :: "string option"
  td_commissionMultiplier :: real
  upgradeAvailable :: bool

text \<open>The single cache holds tier statuses under the keys \<open>tier_<id>\<close> and tier
  capacities under the keys \<open>capacity_<name>\<close>.\<close>

datatype cached = TierStatus tier_data | TierCapacity tier_capacity

record cache_entry =
  cached_value :: cached
  expiry :: real

text \<open>\<open>clock\<close> is what \<open>Date.now()\<close> returns. It moves only while the program awaits
  the backend.\<close>

record manager =
  currentAffiliateId :: "string option"
  cache :: "string \<rightharpoonup> cache_entry"
  clock :: real

definition cacheTTL :: real where
  "cacheTTL = 300000"

subsection \<open>Cache management\<close>

definition getCached :: "string \<Rightarrow> manager \<Rightarrow> cached option \<times> manager" where
  "getCached key st =
     (case cache st key of
        Some e \<Rightarrow>
          if clock st < expiry e then (Some (cached_value e), st)
          else (None, st\<lparr>cache := (cache st)(key := None)\<rparr>)
      | None \<Rightarrow> (None, st))"

text \<open>The third argument is the optional parameter \<open>ttl\<close>, \<open>None\<close> when the caller
  leaves it out.\<close>

definition setCached :: "string \<Rightarrow> cached \<Rightarrow> real option \<Rightarrow> manager \<Rightarrow> manager" where
  "setCached key v ttl st =
     st\<lparr>cache := (cache st)(key \<mapsto>
           \<lparr>cached_value = v,
            expiry = clock st + (case ttl of None \<Rightarrow> cacheTTL | Some t \<Rightarrow> t)\<rparr>)\<rparr>"

definition clearCache :: "manager \<Rightarrow> manager" where
  "clearCache st = st\<lparr>cache := Map.empty\<rparr>"

subsection \<open>The backend\<close>

record tier_reply =
  tr_success :: bool
  tr_currentTier :: string
  tr_clicksToday :: real
  tr_clicksLimit :: real
  tr_clicksRemaining :: real
  tr_salesToday :: real
  tr_totalSales :: real
  tr_progressToNext :: real
  tr_nextTier :: "string option"
  tr_commissionMultiplier :: real
  tr_upgradeAvailable :: bool

record upgrade_reply =
  ur_success :: bool
  ur_newTier :: string
  ur_message :: "string option"

text \<open>Each endpoint maps the request and the time it is sent to what awaiting it gives
  (a parsed reply or an exception) and the time at which the program resumes.\<close>

record backend =
  getTierStatus :: "string \<Rightarrow> real \<Rightarrow> (exn + tier_reply) \<times> real"
  getCapacity :: "real \<Rightarrow> (exn + capacity_reply) \<times> real"
  upgradeTier :: "string \<Rightarrow> real \<Rightarrow> (exn + upgrade_reply) \<times> real"

text \<open>The default parameter \<open>affiliateId = this.currentAffiliateId\<close>: the argument is
  \<open>None\<close> when the caller leaves it out.\<close>

definition affiliate_arg :: "string option \<Rightarrow> manager \<Rightarrow> string option" where
  "affiliate_arg affiliateId st =
     (case affiliateId of None \<Rightarrow> currentAffiliateId st | Some a \<Rightarrow> Some a)"

subsection \<open>getCurrentTier\<close>

definition tierData_of :: "tier_reply \<Rightarrow> tier_data" where
  "tierData_of data =
     \<lparr>tier = tr_currentTier data,
      tierInfo = tier_info_or_newbie (tr_currentTier data),
      clicksToday = or_default (tr_clicksToday data) 0,
      clicksLimit = or_default (tr_clicksLimit data) 0,
      clicksRemaining = or_default (tr_clicksRemaining data) 0,
      salesToday = or_default (tr_salesToday data) 0,
      totalSales = or_default (tr_totalSales data) 0,
      tierProgress = or_default (tr_progressToNext data) 0,
      nextTier = tr_nextTier data,
      td_commissionMultiplier = or_default (tr_commissionMultiplier data) 1,
      upgradeAvailable = tr_upgradeAvailable data\<rparr>"

text \<open>Only tier statuses are stored under \<open>tier_\<close> keys, so the cache hit is a tier
  status; any other content is taken as a miss.\<close>

definition getCurrentTier ::
  "backend \<Rightarrow> string option \<Rightarrow> manager \<Rightarrow> tier_data option \<times> manager" where
  "getCurrentTier be affiliateId st =
     (case affiliate_arg affiliateId st of
        None \<Rightarrow> (None, st)
      | Some a \<Rightarrow>
          if a = [] then (None, st)
          else
            (let cacheKey = ''tier_'' @ a; c = getCached cacheKey st in
             case fst c of
               Some (TierStatus t) \<Rightarrow> (Some t, snd c)
             | _ \<Rightarrow>
                 (let r = getTierStatus be a (clock (snd c));
                      st2 = (snd c)\<lparr>clock := snd r\<rparr>
                  in case fst r of
                       Inl e \<Rightarrow> (None, st2)
                     | Inr data \<Rightarrow>
                         if tr_success data then
                           (Some (tierData_of data),
                            setCached cacheKey (TierStatus (tierData_of data)) None st2)
                         else (None, st2))))"

subsection \<open>isActionAllowed\<close>

record decision =
  allowed :: bool
  reason :: "string option"
  d_current :: "real option"
  d_limit :: "real option"
  d_remaining :: "real option"

definition decide :: "string \<Rightarrow> tier_data \<Rightarrow> decision" where
  "decide action t =
     (if action = ''click'' then
        (if clicksRemaining t \<le> 0 then
           \<lparr>allowed = False, reason = Some ''Daily click limit reached'',
            d_current = Some (clicksToday t), d_limit = Some (clicksLimit t),
            d_remaining = Some 0\<rparr>
         else
           \<lparr>allowed = True, reason = None,
            d_current = Some (clicksToday t), d_limit = Some (clicksLimit t),
            d_remaining = Some (clicksRemaining t)\<rparr>)
      else if action = ''sale'' then
        \<lparr>allowed = True, reason = None, d_current = None, d_limit = None,
         d_remaining = None\<rparr>
      else
        \<lparr>allowed = True, reason = None, d_current = None, d_limit = None,
         d_remaining = None\<rparr>)"

definition isActionAllowed ::
  "backend \<Rightarrow> string \<Rightarrow> string option \<Rightarrow> manager \<Rightarrow> decision \<times> manager" where
  "isActionAllowed be action affiliateId st =
     (let r = getCurrentTier be (affiliate_arg affiliateId st) st in
      case fst r of
        None \<Rightarrow>
          (\<lparr>allowed = False, reason = Some ''Unable to verify tier'',
            d_current = None, d_limit = None, d_remaining = None\<rparr>, snd r)
      | Some t \<Rightarrow> (decide action t, snd r))"

subsection \<open>Tier capacity\<close>

definition no_capacity :: tier_capacity where
  "no_capacity = \<lparr>t_used = 0, t_limit = 0, available = 0, percentFull = None\<rparr>"

text \<open>Inside the \<open>try\<close> block: reading \<open>data.capacity.tiers\<close> throws when the reply
  has no capacity.\<close>

definition tiers_of_reply :: "capacity_reply \<Rightarrow> exn + (string \<times> tier_capacity) list" where
  "tiers_of_reply data =
     (case cr_capacity data of None \<Rightarrow> Inl TypeError | Some s \<Rightarrow> Inr (tiers s))"

definition checkTierCapacity :: "backend \<Rightarrow> string \<Rightarrow> manager \<Rightarrow> tier_capacity \<times> manager" where
  "checkTierCapacity be tierName st =
     (let cacheKey = ''capacity_'' @ tierName; c = getCached cacheKey st in
      case fst c of
        Some (TierCapacity cap) \<Rightarrow> (cap, snd c)
      | _ \<Rightarrow>
          (let r = getCapacity be (clock (snd c));
               st2 = (snd c)\<lparr>clock := snd r\<rparr>
           in case fst r of
                Inl e \<Rightarrow> (no_capacity, st2)
              | Inr data \<Rightarrow>
                  if cr_success data then
                    (case tiers_of_reply data of
                       Inl e \<Rightarrow> (no_capacity, st2)
                     | Inr ts \<Rightarrow>
                         (case map_of ts tierName of
                            Some cap \<Rightarrow>
                              (cap, setCached cacheKey (TierCapacity cap) (Some 60000) st2)
                          | None \<Rightarrow> (no_capacity, st2)))
                  else (no_capacity, st2)))"

definition getAllTierCapacities ::
  "backend \<Rightarrow> manager \<Rightarrow> (string \<times> tier_capacity) list \<times> manager" where
  "getAllTierCapacities be st =
     (let r = getCapacity be (clock st); st2 = st\<lparr>clock := snd r\<rparr> in
      case fst r of
        Inl e \<Rightarrow> ([], st2)
      | Inr data \<Rightarrow>
          if cr_success data then
            (case tiers_of_reply data of Inl e \<Rightarrow> ([], st2) | Inr ts \<Rightarrow> (ts, st2))
          else ([], st2))"

subsection \<open>getAvailableTier\<close>

record tier_assignment =
  ta_tier :: string
  ta_info :: "tier_info option"
  ta_capacity :: tier_capacity

fun first_available :: "(string \<times> tier_capacity) list \<Rightarrow> tier_assignment option" where
  "first_available [] = None"
| "first_available ((tierName, capacity) # rest) =
     (if 0 < available capacity then
        Some \<lparr>ta_tier = tierName, ta_info = map_of TIERS tierName, ta_capacity = capacity\<rparr>
      else first_available rest)"

definition getAvailableTier :: "backend \<Rightarrow> manager \<Rightarrow> tier_assignment option \<times> manager" where
  "getAvailableTier be st =
     (let r = getAllTierCapacities be st in (first_available (fst r), snd r))"

subsection \<open>canUpgrade and requestUpgrade\<close>

text \<open>The four objects \<open>canUpgrade\<close> returns, one constructor each:
  \<open>{canUpgrade: false, reason: 'Already at max tier'}\<close>;
  \<open>{canUpgrade: true, currentTier, nextTier, required, current}\<close>;
  \<open>{canUpgrade: false, reason: '<nextTier> tier is currently full', waitlist: true}\<close>;
  \<open>{canUpgrade: false, reason: 'Need <n> more sales', required, current, remaining}\<close>.\<close>

datatype upgrade_eligibility =
    AlreadyAtMaxTier
  | Eligible string string "real option" real
  | TierCurrentlyFull string
  | NeedMoreSales "real option" real real

fun can_upgrade :: "upgrade_eligibility \<Rightarrow> bool" where
  "can_upgrade (Eligible cur nxt required current) = True"
| "can_upgrade _ = False"

fun waitlist :: "upgrade_eligibility \<Rightarrow> bool" where
  "waitlist (TierCurrentlyFull nxt) = True"
| "waitlist _ = False"

definition canUpgrade ::
  "backend \<Rightarrow> string option \<Rightarrow> manager \<Rightarrow> upgrade_eligibility \<times> manager" where
  "canUpgrade be affiliateId st =
     (let r = getCurrentTier be (affiliate_arg affiliateId st) st in
      case fst r of
        None \<Rightarrow> (AlreadyAtMaxTier, snd r)
      | Some t \<Rightarrow>
          (case nextTier t of
             None \<Rightarrow> (AlreadyAtMaxTier, snd r)
           | Some nxt \<Rightarrow>
               if nxt = [] then (AlreadyAtMaxTier, snd r)
               else
                 (let required = salesRequiredForUpgrade (tierInfo t) in
                  if to_number required \<le> totalSales t then
                    (let c = checkTierCapacity be nxt (snd r) in
                     if 0 < available (fst c) then
                       (Eligible (tier t) nxt required (totalSales t), snd c)
                     else (TierCurrentlyFull nxt, snd c))
                  else
                    (NeedMoreSales required (totalSales t)
                       (to_number required - totalSales t), snd r))))"

text \<open>The messages of \<open>requestUpgrade\<close>: the reason of a refusal by \<open>canUpgrade\<close>, the
  congratulation with the new tier, the backend's own message or \<open>'Upgrade failed'\<close>,
  and \<open>'Network error'\<close>.\<close>

datatype upgrade_message =
    Refused upgrade_eligibility
  | Congratulations string
  | BackendSaid string
  | UpgradeFailed
  | NetworkErrorMessage

record upgrade_result =
  u_success :: bool
  u_newTier :: "string option"
  u_message :: upgrade_message

definition requestUpgrade ::
  "backend \<Rightarrow> string option \<Rightarrow> manager \<Rightarrow> upgrade_result \<times> manager" where
  "requestUpgrade be affiliateId st =
     (let e = canUpgrade be (affiliate_arg affiliateId st) st in
      if \<not> can_upgrade (fst e) then
        (\<lparr>u_success = False, u_newTier = None, u_message = Refused (fst e)\<rparr>, snd e)
      else
        (let a = (case affiliate_arg affiliateId st of None \<Rightarrow> ''null'' | Some x \<Rightarrow> x);
             r = upgradeTier be a (clock (snd e));
             st2 = (snd e)\<lparr>clock := snd r\<rparr>
         in case fst r of
              Inl x \<Rightarrow>
                (\<lparr>u_success = False, u_newTier = None, u_message = NetworkErrorMessage\<rparr>, st2)
            | Inr data \<Rightarrow>
                if ur_success data then
                  (\<lparr>u_success = True, u_newTier = Some (ur_newTier data),
                    u_message = Congratulations (ur_newTier data)\<rparr>, clearCache st2)
                else
                  (\<lparr>u_success = False, u_newTier = None,
                    u_message = (case ur_message data of
                                   None \<Rightarrow> UpgradeFailed
                                 | Some msg \<Rightarrow> if msg = [] then UpgradeFailed else BackendSaid msg)\<rparr>,
                   st2)))"

section \<open>Notions used in the statements\<close>

subsection \<open>Threshold keys and failed fetches\<close>

text \<open>The threshold keys a snapshot is above: \<open>clicks_80\<close>, \<open>clicks_95\<close>, and
  \<open>tier_<tier>_90\<close>, \<open>tier_<tier>_98\<close> for each tier entry.\<close>

definition crossed_keys :: "snapshot \<Rightarrow> string set" where
  "crossed_keys s =
     (if js_gt (clickPercent s) 80 then {''clicks_80''} else {})
     \<union> (if js_gt (clickPercent s) 95 then {''clicks_95''} else {})
     \<union> set (map (\<lambda>(tier, d). ''tier_'' @ tier @ ''_90'')
              (filter (\<lambda>(tier, d). undef_gt (percentFull d) 90) (tiers s)))
     \<union> set (map (\<lambda>(tier, d). ''tier_'' @ tier @ ''_98'')
              (filter (\<lambda>(tier, d). undef_gt (percentFull d) 98) (tiers s)))"

text \<open>The invariant of one evaluation that started with the fired-set \<open>shown0\<close>: the
  keys pushed so far are pairwise different, none was in \<open>shown0\<close>, and the fired-set
  is \<open>shown0\<close> with them added.\<close>

definition fired_from :: "string set \<Rightarrow> warn_acc \<Rightarrow> bool" where
  "fired_from shown0 acc =
     (distinct (map fst (fst acc))
      \<and> set (map fst (fst acc)) \<inter> shown0 = {}
      \<and> snd acc = shown0 \<union> set (map fst (fst acc)))"

text \<open>A fetch fails when awaiting it throws (transport or parse error) or when the
  reply says \<open>success: false\<close>.\<close>

definition capacity_fetch_failed :: "exn + capacity_reply \<Rightarrow> bool" where
  "capacity_fetch_failed r = (case r of Inl e \<Rightarrow> True | Inr data \<Rightarrow> \<not> cr_success data)"

definition tier_fetch_failed :: "exn + tier_reply \<Rightarrow> bool" where
  "tier_fetch_failed r = (case r of Inl e \<Rightarrow> True | Inr data \<Rightarrow> \<not> tr_success data)"

definition upgrade_fetch_failed :: "exn + upgrade_reply \<Rightarrow> bool" where
  "upgrade_fetch_failed r = (case r of Inl e \<Rightarrow> True | Inr data \<Rightarrow> \<not> ur_success data)"

text \<open>The kind of value each key prefix holds: tier statuses under \<open>tier_\<close>, tier
  capacities under \<open>capacity_\<close>.\<close>

definition kind_ok :: "string \<Rightarrow> cached \<Rightarrow> bool" where
  "kind_ok key v =
     (case v of
        TierStatus t \<Rightarrow> take 5 key = ''tier_''
      | TierCapacity c \<Rightarrow> take 9 key = ''capacity_'')"

definition cache_kinds :: "manager \<Rightarrow> bool" where
  "cache_kinds st = (\<forall>key e. cache st key = Some e \<longrightarrow> kind_ok key (cached_value e))"

subsection \<open>The specification's tier scans\<close>

text \<open>These two definitions follow the words of the specification, not the code: the
  tiers are visited in configuration order (\<open>NEWBIE\<close>, \<open>ACTIVE\<close>, \<open>PRO\<close>, \<open>ELITE\<close>), and a
  tier that the capacities do not list counts as having no slot available.\<close>

definition spec_available :: "(string \<times> tier_capacity) list \<Rightarrow> string \<Rightarrow> real" where
  "spec_available caps t = (case map_of caps t of Some d \<Rightarrow> available d | None \<Rightarrow> 0)"

text \<open>The first configured tier with a slot available.\<close>

definition spec_availableTierForSignup :: "(string \<times> tier_capacity) list \<Rightarrow> string option" where
  "spec_availableTierForSignup caps =
     find (\<lambda>t. 0 < spec_available caps t) (map fst TIERS)"

text \<open>The first configured tier whose available count no configured tier exceeds; the
  lowest tier when there is no snapshot.\<close>

definition spec_recommendedTier :: "snapshot option \<Rightarrow> string" where
  "spec_recommendedTier cur =
     (case cur of
        None \<Rightarrow> ''NEWBIE''
      | Some s \<Rightarrow>
          (case find (\<lambda>t. \<forall>t' \<in> set (map fst TIERS).
                             spec_available (tiers s) t' \<le> spec_available (tiers s) t)
                  (map fst TIERS) of
             Some t \<Rightarrow> t
           | None \<Rightarrow> ''NEWBIE''))"

subsection \<open>Scenarios\<close>

text \<open>A snapshot whose tiers object lists \<open>ACTIVE\<close> before \<open>NEWBIE\<close>, both with 50 slots
  available, and \<open>PRO\<close> and \<open>ELITE\<close> full; a backend that answers with it and reports an
  \<open>ACTIVE\<close> affiliate with 60 sales and no click left; and a backend that is down.\<close>

definition scenario_tiers :: "(string \<times> tier_capacity) list" where
  "scenario_tiers =
     [(''ACTIVE'', \<lparr>t_used = 350, t_limit = 400, available = 50, percentFull = Some (875 / 10)\<rparr>),
      (''NEWBIE'', \<lparr>t_used = 1950, t_limit = 2000, available = 50, percentFull = Some (975 / 10)\<rparr>),
      (''PRO'', \<lparr>t_used = 90, t_limit = 90, available = 0, percentFull = Some 100\<rparr>),
      (''ELITE'', \<lparr>t_used = 10, t_limit = 10, available = 0, percentFull = Some 100\<rparr>)]"

definition scenario_snapshot :: snapshot where
  "scenario_snapshot =
     \<lparr>clicks = \<lparr>used = 100, limit = 5000, remaining = 4900\<rparr>,
      sales = \<lparr>used = 0, limit = 500, remaining = 500\<rparr>,
      tiers = scenario_tiers\<rparr>"

definition full_snapshot :: snapshot where
  "full_snapshot =
     \<lparr>clicks = \<lparr>used = 100, limit = 5000, remaining = 4900\<rparr>,
      sales = \<lparr>used = 0, limit = 500, remaining = 500\<rparr>,
      tiers = [(''NEWBIE'', \<lparr>t_used = 2000, t_limit = 2000, available = 0, percentFull = Some 100\<rparr>),
               (''ACTIVE'', \<lparr>t_used = 400, t_limit = 400, available = 0, percentFull = Some 100\<rparr>)]\<rparr>"

definition scenario_reply :: tier_reply where
  "scenario_reply =
     \<lparr>tr_success = True, tr_currentTier = ''ACTIVE'',
      tr_clicksToday = 50, tr_clicksLimit = 50, tr_clicksRemaining = 0,
      tr_salesToday = 2, tr_totalSales = 60, tr_progressToNext = 100,
      tr_nextTier = Some ''PRO'', tr_commissionMultiplier = 115 / 100,
      tr_upgradeAvailable = True\<rparr>"

definition scenario_backend :: backend where
  "scenario_backend =
     \<lparr>getTierStatus = (\<lambda>a now. (Inr scenario_reply, now + 200)),
      getCapacity = (\<lambda>now. (Inr \<lparr>cr_success = True, cr_capacity = Some scenario_snapshot\<rparr>,
                             now + 200)),
      upgradeTier = (\<lambda>a now. (Inl NetworkError, now + 200))\<rparr>"

definition full_backend :: backend where
  "full_backend =
     \<lparr>getTierStatus = (\<lambda>a now. (Inr scenario_reply, now + 200)),
      getCapacity = (\<lambda>now. (Inr \<lparr>cr_success = True, cr_capacity = Some full_snapshot\<rparr>,
                             now + 200)),
      upgradeTier = (\<lambda>a now. (Inl NetworkError, now + 200))\<rparr>"

definition down_backend :: backend where
  "down_backend =
     \<lparr>getTierStatus = (\<lambda>a now. (Inl NetworkError, now + 3000)),
      getCapacity = (\<lambda>now. (Inr \<lparr>cr_success = False, cr_capacity = None\<rparr>, now + 200)),
      upgradeTier = (\<lambda>a now. (Inl NetworkError, now + 3000))\<rparr>"

definition scenario_manager :: manager where
  "scenario_manager = \<lparr>currentAffiliateId = Some ''A1'', cache = Map.empty, clock = 0\<rparr>"

text \<open>The end-to-end scenario of the specification: 4100 of 5000 clicks used and
  \<open>PRO\<close> at 98.9%; and a quiet snapshot at 70% of the clicks.\<close>

definition busy_snapshot :: snapshot where
  "busy_snapshot =
     \<lparr>clicks = \<lparr>used = 4100, limit = 5000, remaining = 900\<rparr>,
      sales = \<lparr>used = 0, limit = 500, remaining = 500\<rparr>,
      tiers = [(''PRO'', \<lparr>t_used = 89, t_limit = 90, available = 1,
                          percentFull = Some (989 / 10)\<rparr>)]\<rparr>"

definition quiet_snapshot :: snapshot where
  "quiet_snapshot =
     \<lparr>clicks = \<lparr>used = 3500, limit = 5000, remaining = 1500\<rparr>,
      sales = \<lparr>used = 0, limit = 500, remaining = 500\<rparr>,
      tiers = [(''PRO'', \<lparr>t_used = 45, t_limit = 90, available = 45,
                          percentFull = Some 50\<rparr>)]\<rparr>"

section \<open>Properties\<close>

lemma clickPercent_Fin:
  "limit (clicks s) \<noteq> 0 \<Longrightarrow>
   clickPercent s = Fin (100 * used (clicks s) / limit (clicks s))"
  by (simp add: clickPercent_def js_div_def)

lemma any_tier_over_iff:
  "any_tier_over c ts = (\<exists>(tier, d) \<in> set ts. undef_gt (percentFull d) c)"
  by (induction ts) auto

subsection \<open>System status\<close>

text \<open>
  Claim C1. With no snapshot held, \<open>getSystemStatus\<close> answers \<open>unknown\<close>. With a
  snapshot whose click limit is not zero, let \<open>p = 100 * used / limit\<close>: the status is
  \<open>critical\<close> when \<open>p > 95\<close>, \<open>warning\<close> when \<open>80 < p \<le> 95\<close> and \<open>healthy\<close> for every
  other \<open>p\<close>, so the cut points are exactly 80 and 95 (at \<open>p = 80\<close> the status is still
  healthy, at \<open>p = 95\<close> still warning); the colour and the message are those of the
  status, and the percentage reported is \<open>p\<close>.
\<close>

theorem getSystemStatus_classification:
  "getSystemStatus (m\<lparr>currentCapacity := None\<rparr>) =
     \<lparr>status = ''unknown'', color = ''gray'',
      message = ''Loading system status...'', percentage = None\<rparr>
   \<and> (limit (clicks s) \<noteq> 0 \<longrightarrow>
      (let p = 100 * used (clicks s) / limit (clicks s);
           r = getSystemStatus (m\<lparr>currentCapacity := Some s\<rparr>)
       in percentage r = Some (Fin p)
          \<and> (95 < p \<longrightarrow>
                status r = ''critical'' \<and> color r = ''red''
                \<and> message r = ''System near capacity - New signups paused'')
          \<and> (80 < p \<and> p \<le> 95 \<longrightarrow>
                status r = ''warning'' \<and> color r = ''yellow''
                \<and> message r = ''High traffic - Performance may vary'')
          \<and> (p \<le> 80 \<longrightarrow>
                status r = ''healthy'' \<and> color r = ''green''
                \<and> message r = ''System operating normally'')))"
  by (simp add: getSystemStatus_def clickPercent_Fin Let_def)

text \<open>At 4000, 4005, 4750 and 4755 clicks of 5000 (80%, 80.1%, 95% and 95.1%).\<close>

theorem getSystemStatus_classification_witness:
  "status (getSystemStatus \<lparr>currentCapacity = Some
      \<lparr>clicks = \<lparr>used = 4000, limit = 5000, remaining = 1000\<rparr>,
       sales = \<lparr>used = 0, limit = 500, remaining = 500\<rparr>, tiers = []\<rparr>,
     warningsShown = {}\<rparr>) = ''healthy''
  \<and> status (getSystemStatus \<lparr>currentCapacity = Some
      \<lparr>clicks = \<lparr>used = 4005, limit = 5000, remaining = 995\<rparr>,
       sales = \<lparr>used = 0, limit = 500, remaining = 500\<rparr>, tiers = []\<rparr>,
     warningsShown = {}\<rparr>) = ''warning''
  \<and> status (getSystemStatus \<lparr>currentCapacity = Some
      \<lparr>clicks = \<lparr>used = 4750, limit = 5000, remaining = 250\<rparr>,
       sales = \<lparr>used = 0, limit = 500, remaining = 500\<rparr>, tiers = []\<rparr>,
     warningsShown = {}\<rparr>) = ''warning''
  \<and> status (getSystemStatus \<lparr>currentCapacity = Some
      \<lparr>clicks = \<lparr>used = 4755, limit = 5000, remaining = 245\<rparr>,
       sales = \<lparr>used = 0, limit = 500, remaining = 500\<rparr>, tiers = []\<rparr>,
     warningsShown = {}\<rparr>) = ''critical''"
  using getSystemStatus_classification
      [of "\<lparr>currentCapacity = None, warningsShown = {}\<rparr>"
          "\<lparr>clicks = \<lparr>used = 4000, limit = 5000, remaining = 1000\<rparr>,
       sales = \<lparr>used = 0, limit = 500, remaining = 500\<rparr>, tiers = []\<rparr>"]
    getSystemStatus_classification
      [of "\<lparr>currentCapacity = None, warningsShown = {}\<rparr>"
          "\<lparr>clicks = \<lparr>used = 4005, limit = 5000, remaining = 995\<rparr>,
       sales = \<lparr>used = 0, limit = 500, remaining = 500\<rparr>, tiers = []\<rparr>"]
    getSystemStatus_classification
      [of "\<lparr>currentCapacity = None, warningsShown = {}\<rparr>"
          "\<lparr>clicks = \<lparr>used = 4750, limit = 5000, remaining = 250\<rparr>,
       sales = \<lparr>used = 0, limit = 500, remaining = 500\<rparr>, tiers = []\<rparr>"]
    getSystemStatus_classification
      [of "\<lparr>currentCapacity = None, warningsShown = {}\<rparr>"
          "\<lparr>clicks = \<lparr>used = 4755, limit = 5000, remaining = 245\<rparr>,
       sales = \<lparr>used = 0, limit = 500, remaining = 500\<rparr>, tiers = []\<rparr>"]
  by (simp add: Let_def)

subsection \<open>Pausing signups\<close>

text \<open>
  Claim C4. With a snapshot held whose click limit is not zero, \<open>shouldPauseSignups\<close>
  is true exactly when some tier entry has \<open>percentFull > 95\<close> or the click utilization
  \<open>100 * used / limit\<close> is above 90; either condition alone suffices.
\<close>

theorem shouldPauseSignups_iff:
  "limit (clicks s) \<noteq> 0 \<Longrightarrow>
   shouldPauseSignups (m\<lparr>currentCapacity := Some s\<rparr>) =
     ((\<exists>(tier, d) \<in> set (tiers s). undef_gt (percentFull d) 95)
      \<or> 90 < 100 * used (clicks s) / limit (clicks s))"
  by (simp add: shouldPauseSignups_def clickPercent_Fin any_tier_over_iff)

text \<open>One tier at 98.9% with no click used; clicks at 90.1% with no tier full; and
  neither, with a tier at exactly 95% and clicks at exactly 90%.\<close>

theorem shouldPauseSignups_iff_witness:
  "shouldPauseSignups \<lparr>currentCapacity = Some
      \<lparr>clicks = \<lparr>used = 0, limit = 5000, remaining = 5000\<rparr>,
       sales = \<lparr>used = 0, limit = 500, remaining = 500\<rparr>,
       tiers = [(''NEWBIE'', \<lparr>t_used = 10, t_limit = 2000, available = 1990, percentFull = Some (1/2)\<rparr>),
                (''PRO'', \<lparr>t_used = 89, t_limit = 90, available = 1, percentFull = Some (989 / 10)\<rparr>)]\<rparr>,
     warningsShown = {}\<rparr>
   \<and> shouldPauseSignups \<lparr>currentCapacity = Some
      \<lparr>clicks = \<lparr>used = 4505, limit = 5000, remaining = 495\<rparr>,
       sales = \<lparr>used = 0, limit = 500, remaining = 500\<rparr>,
       tiers = [(''NEWBIE'', \<lparr>t_used = 10, t_limit = 2000, available = 1990, percentFull = Some (1/2)\<rparr>)]\<rparr>,
     warningsShown = {}\<rparr>
   \<and> \<not> shouldPauseSignups \<lparr>currentCapacity = Some
      \<lparr>clicks = \<lparr>used = 4500, limit = 5000, remaining = 500\<rparr>,
       sales = \<lparr>used = 0, limit = 500, remaining = 500\<rparr>,
       tiers = [(''NEWBIE'', \<lparr>t_used = 1900, t_limit = 2000, available = 100, percentFull = Some 95\<rparr>)]\<rparr>,
     warningsShown = {}\<rparr>"
  using shouldPauseSignups_iff
      [of "\<lparr>clicks = \<lparr>used = 0, limit = 5000, remaining = 5000\<rparr>,
       sales = \<lparr>used = 0, limit = 500, remaining = 500\<rparr>,
       tiers = [(''NEWBIE'', \<lparr>t_used = 10, t_limit = 2000, available = 1990, percentFull = Some (1/2)\<rparr>),
                (''PRO'', \<lparr>t_used = 89, t_limit = 90, available = 1, percentFull = Some (989 / 10)\<rparr>)]\<rparr>"
          "\<lparr>currentCapacity = None, warningsShown = {}\<rparr>"]
    shouldPauseSignups_iff
      [of "\<lparr>clicks = \<lparr>used = 4505, limit = 5000, remaining = 495\<rparr>,
       sales = \<lparr>used = 0, limit = 500, remaining = 500\<rparr>,
       tiers = [(''NEWBIE'', \<lparr>t_used = 10, t_limit = 2000, available = 1990, percentFull = Some (1/2)\<rparr>)]\<rparr>"
          "\<lparr>currentCapacity = None, warningsShown = {}\<rparr>"]
    shouldPauseSignups_iff
      [of "\<lparr>clicks = \<lparr>used = 4500, limit = 5000, remaining = 500\<rparr>,
       sales = \<lparr>used = 0, limit = 500, remaining = 500\<rparr>,
       tiers = [(''NEWBIE'', \<lparr>t_used = 1900, t_limit = 2000, available = 100, percentFull = Some 95\<rparr>)]\<rparr>"
          "\<lparr>currentCapacity = None, warningsShown = {}\<rparr>"]
  by simp

text \<open>
  Claim C10. While no snapshot is held, \<open>shouldPauseSignups\<close> is false, whatever the
  rest of the monitor's state.
\<close>

theorem shouldPauseSignups_no_snapshot:
  "shouldPauseSignups (m\<lparr>currentCapacity := None\<rparr>) = False"
  by (simp add: shouldPauseSignups_def)

subsection \<open>The recommended tier\<close>

lemma recommend_loop_none:
  "\<forall>(t, d) \<in> set ts. available d \<le> ms \<Longrightarrow> recommend_loop ts b ms = b"
  by (induction ts arbitrary: b ms) auto

text \<open>When some entry has more space than the starting value, the loop ends on the
  first entry that holds the largest available count.\<close>

lemma recommend_loop_first_max:
  "\<exists>(t, d) \<in> set ts. ms < available d \<Longrightarrow>
   \<exists>pre t d post. ts = pre @ (t, d) # post \<and> recommend_loop ts b ms = t
      \<and> ms < available d
      \<and> (\<forall>(t', d') \<in> set pre. available d' < available d)
      \<and> (\<forall>(t', d') \<in> set post. available d' \<le> available d)"
proof (induction ts arbitrary: b ms)
  case Nil
  then show ?case by simp
next
  case (Cons e rest)
  obtain t d where e: "e = (t, d)" by (cases e)
  let ?next_b = "if ms < available d then t else b"
  let ?next_ms = "if ms < available d then available d else ms"
  have step: "recommend_loop (e # rest) b ms = recommend_loop rest ?next_b ?next_ms"
    using e by simp
  have ms_le: "ms \<le> ?next_ms" by simp
  have d_le: "available d \<le> ?next_ms" by simp
  show ?case
  proof (cases "\<exists>(t', d') \<in> set rest. ?next_ms < available d'")
    case True
    from Cons.IH [OF True, of ?next_b] obtain pre t1 d1 post where
      split: "rest = pre @ (t1, d1) # post"
      and r: "recommend_loop rest ?next_b ?next_ms = t1"
      and gt: "?next_ms < available d1"
      and pre: "\<forall>(t', d') \<in> set pre. available d' < available d1"
      and post: "\<forall>(t', d') \<in> set post. available d' \<le> available d1"
      by blast
    have 1: "e # rest = (e # pre) @ (t1, d1) # post" using split by simp
    have 2: "recommend_loop (e # rest) b ms = t1" using step r by simp
    have 3: "ms < available d1" using ms_le gt by linarith
    have "available d < available d1" using d_le gt by linarith
    then have 4: "\<forall>(t', d') \<in> set (e # pre). available d' < available d1"
      using pre e by simp
    from 1 2 3 4 post show ?thesis by blast
  next
    case False
    then have le: "\<forall>(t', d') \<in> set rest. available d' \<le> ?next_ms"
      by (auto simp: not_less)
    have r: "recommend_loop rest ?next_b ?next_ms = ?next_b"
      by (rule recommend_loop_none [OF le])
    have here: "ms < available d"
    proof (rule ccontr)
      assume n: "\<not> ms < available d"
      from Cons.prems e obtain t' d' where "(t', d') \<in> set rest" "ms < available d'"
        using n by auto
      with le n show False by fastforce
    qed
    have 1: "e # rest = [] @ (t, d) # rest" using e by simp
    have 2: "recommend_loop (e # rest) b ms = t" using step r here by simp
    have 4: "\<forall>(t', d') \<in> set []. available d' < available d" by simp
    have 5: "\<forall>(t', d') \<in> set rest. available d' \<le> available d" using le here by simp
    from 1 2 here 4 5 show ?thesis by blast
  qed
qed

text \<open>
  Claim C5, as the code has it. With no snapshot \<open>getRecommendedTier\<close> returns
  \<open>NEWBIE\<close>. With a snapshot it returns the tier with the largest available count, and
  among tiers that tie on it the one that comes first in the order in which the
  snapshot's own tiers object lists them; when no entry has a positive available count
  it returns \<open>NEWBIE\<close>. The configuration order plays no part.
\<close>

theorem getRecommendedTier_first_largest:
  "getRecommendedTier (m\<lparr>currentCapacity := None\<rparr>) = ''NEWBIE''
   \<and> ((\<forall>(t, d) \<in> set (tiers s). available d \<le> 0) \<longrightarrow>
        getRecommendedTier (m\<lparr>currentCapacity := Some s\<rparr>) = ''NEWBIE'')
   \<and> ((\<exists>(t, d) \<in> set (tiers s). 0 < available d) \<longrightarrow>
        (\<exists>pre t d post. tiers s = pre @ (t, d) # post
           \<and> getRecommendedTier (m\<lparr>currentCapacity := Some s\<rparr>) = t
           \<and> (\<forall>(t', d') \<in> set pre. available d' < available d)
           \<and> (\<forall>(t', d') \<in> set post. available d' \<le> available d)))"
proof (intro conjI impI)
  show "getRecommendedTier (m\<lparr>currentCapacity := None\<rparr>) = ''NEWBIE''"
    by (simp add: getRecommendedTier_def)
next
  assume "\<forall>(t, d) \<in> set (tiers s). available d \<le> 0"
  then show "getRecommendedTier (m\<lparr>currentCapacity := Some s\<rparr>) = ''NEWBIE''"
    by (simp add: getRecommendedTier_def recommend_loop_none)
next
  assume "\<exists>(t, d) \<in> set (tiers s). 0 < available d"
  from recommend_loop_first_max [OF this, of "''NEWBIE''"]
  show "\<exists>pre t d post. tiers s = pre @ (t, d) # post
           \<and> getRecommendedTier (m\<lparr>currentCapacity := Some s\<rparr>) = t
           \<and> (\<forall>(t', d') \<in> set pre. available d' < available d)
           \<and> (\<forall>(t', d') \<in> set post. available d' \<le> available d)"
    by (simp add: getRecommendedTier_def) blast
qed

theorem getRecommendedTier_first_largest_witness:
  "getRecommendedTier \<lparr>currentCapacity = Some full_snapshot, warningsShown = {}\<rparr> = ''NEWBIE''
   \<and> (\<exists>pre t d post. tiers scenario_snapshot = pre @ (t, d) # post
         \<and> getRecommendedTier \<lparr>currentCapacity = Some scenario_snapshot, warningsShown = {}\<rparr> = t
         \<and> (\<forall>(t', d') \<in> set pre. available d' < available d)
         \<and> (\<forall>(t', d') \<in> set post. available d' \<le> available d))"
proof -
  have 1: "\<forall>(t, d) \<in> set (tiers full_snapshot). available d \<le> 0"
    by (simp add: full_snapshot_def)
  have 2: "\<exists>(t, d) \<in> set (tiers scenario_snapshot). 0 < available d"
    by (simp add: scenario_snapshot_def scenario_tiers_def)
  show ?thesis
    using 1 2
      getRecommendedTier_first_largest [of "\<lparr>currentCapacity = None, warningsShown = {}\<rparr>" full_snapshot]
      getRecommendedTier_first_largest [of "\<lparr>currentCapacity = None, warningsShown = {}\<rparr>" scenario_snapshot]
    by simp
qed

text \<open>
  Claim C5 as stated fails: with \<open>ACTIVE\<close> listed before \<open>NEWBIE\<close> and both at 50
  available slots, the code recommends \<open>ACTIVE\<close>, while the earliest tier in
  configuration order among those with the largest count is \<open>NEWBIE\<close>.
\<close>

theorem getRecommendedTier_counterexample:
  "getRecommendedTier \<lparr>currentCapacity = Some scenario_snapshot, warningsShown = {}\<rparr> = ''ACTIVE''
   \<and> spec_recommendedTier (Some scenario_snapshot) = ''NEWBIE''"
  by (simp add: getRecommendedTier_def spec_recommendedTier_def spec_available_def TIERS_def
      scenario_snapshot_def scenario_tiers_def)

text \<open>When the snapshot lists exactly the configured tiers in configuration order, with
  no negative count, the code's answer is the specification's.\<close>

lemma getRecommendedTier_configuration_order:
  assumes "map fst (tiers s) = map fst TIERS"
    and "\<forall>(t, d) \<in> set (tiers s). 0 \<le> available d"
  shows "getRecommendedTier (m\<lparr>currentCapacity := Some s\<rparr>) = spec_recommendedTier (Some s)"
proof -
  from assms(1) obtain d1 d2 d3 d4 where
    ts: "tiers s = [(''NEWBIE'', d1), (''ACTIVE'', d2), (''PRO'', d3), (''ELITE'', d4)]"
    by (auto simp: TIERS_def map_eq_Cons_conv)
  with assms(2) have nn: "0 \<le> available d1" "0 \<le> available d2" "0 \<le> available d3"
    "0 \<le> available d4"
    by simp_all
  show ?thesis
    using nn
    by (simp add: getRecommendedTier_def spec_recommendedTier_def spec_available_def TIERS_def ts)
qed

subsection \<open>Warnings fire once\<close>

lemma fired_from_start: "fired_from shown0 ([], shown0)"
  by (simp add: fired_from_def)

lemma fire_fired_from:
  "fired_from shown0 acc \<Longrightarrow> fired_from shown0 (fire cond key w acc)"
  by (auto simp: fired_from_def fire_def)

lemma fire_shown: "snd (fire cond key w acc) = snd acc \<union> (if cond then {key} else {})"
  by (auto simp: fire_def)

lemma check_tiers_fired_from:
  "fired_from shown0 acc \<Longrightarrow> fired_from shown0 (check_tiers ts acc)"
proof (induction ts arbitrary: acc)
  case Nil
  then show ?case by simp
next
  case (Cons e ts)
  obtain t d where e: "e = (t, d)" by (cases e)
  show ?case
    using Cons.IH [OF fire_fired_from [OF fire_fired_from [OF Cons.prems]]]
    by (simp add: e)
qed

lemma check_tiers_shown:
  "snd (check_tiers ts acc) =
     snd acc
     \<union> set (map (\<lambda>(tier, d). ''tier_'' @ tier @ ''_90'')
              (filter (\<lambda>(tier, d). undef_gt (percentFull d) 90) ts))
     \<union> set (map (\<lambda>(tier, d). ''tier_'' @ tier @ ''_98'')
              (filter (\<lambda>(tier, d). undef_gt (percentFull d) 98) ts))"
proof (induction ts arbitrary: acc)
  case Nil
  show ?case by simp
next
  case (Cons e ts)
  obtain t d where e: "e = (t, d)" by (cases e)
  let ?acc = "fire (undef_gt (percentFull d) 98) (''tier_'' @ t @ ''_98'') (tier_warning_98 t d)
         (fire (undef_gt (percentFull d) 90) (''tier_'' @ t @ ''_90'') (tier_warning_90 t d) acc)"
  have "snd (check_tiers (e # ts) acc) = snd (check_tiers ts ?acc)"
    by (simp add: e)
  also note Cons.IH [of ?acc]
  finally show ?case
    by (simp add: e fire_shown Un_ac)
qed

lemma check_clicks_fired_from:
  "fired_from shown0 acc \<Longrightarrow> fired_from shown0 (check_clicks p acc)"
  by (simp add: check_clicks_def fire_fired_from)

lemma check_clicks_shown:
  "snd (check_clicks p acc) =
     snd acc \<union> (if js_gt p 80 then {''clicks_80''} else {})
             \<union> (if js_gt p 95 then {''clicks_95''} else {})"
  by (auto simp: check_clicks_def fire_shown)

lemma checkWarnings_snapshot:
  assumes "currentCapacity m = Some s"
  shows "fired_from (warningsShown m) (fst (checkWarnings m), warningsShown (snd (checkWarnings m)))"
    and "warningsShown (snd (checkWarnings m)) = warningsShown m \<union> crossed_keys s"
    and "currentCapacity (snd (checkWarnings m)) = Some s"
proof -
  let ?acc = "check_tiers (tiers s) (check_clicks (clickPercent s) ([], warningsShown m))"
  have r: "checkWarnings m = (fst ?acc, m\<lparr>warningsShown := snd ?acc\<rparr>)"
    using assms by (simp add: checkWarnings_def Let_def)
  have "fired_from (warningsShown m) ?acc"
    by (intro check_tiers_fired_from check_clicks_fired_from fired_from_start)
  then show "fired_from (warningsShown m) (fst (checkWarnings m), warningsShown (snd (checkWarnings m)))"
    by (simp add: r)
  show "warningsShown (snd (checkWarnings m)) = warningsShown m \<union> crossed_keys s"
    by (simp add: r check_tiers_shown check_clicks_shown crossed_keys_def Un_assoc)
  show "currentCapacity (snd (checkWarnings m)) = Some s"
    using assms by (simp add: r)
qed

lemma checkWarnings_no_snapshot:
  "currentCapacity m = None \<Longrightarrow> checkWarnings m = ([], m)"
  by (simp add: checkWarnings_def)

lemma checkWarnings_fired_from:
  "fired_from (warningsShown m) (fst (checkWarnings m), warningsShown (snd (checkWarnings m)))"
proof (cases "currentCapacity m")
  case None
  then show ?thesis by (simp add: checkWarnings_no_snapshot fired_from_def)
next
  case (Some s)
  then show ?thesis by (rule checkWarnings_snapshot)
qed

lemma fetchCapacity_fired_from:
  "fired_from (warningsShown m)
     (fst (snd (fetchCapacity response m)), warningsShown (snd (snd (fetchCapacity response m))))"
proof (cases response)
  case (Inl e)
  then show ?thesis by (simp add: fetchCapacity_def fired_from_def)
next
  case (Inr data)
  show ?thesis
  proof (cases "cr_success data")
    case True
    have "fired_from (warningsShown (m\<lparr>currentCapacity := cr_capacity data\<rparr>))
       (fst (checkWarnings (m\<lparr>currentCapacity := cr_capacity data\<rparr>)),
        warningsShown (snd (checkWarnings (m\<lparr>currentCapacity := cr_capacity data\<rparr>))))"
      by (rule checkWarnings_fired_from)
    then show ?thesis using Inr True by (simp add: fetchCapacity_def Let_def)
  next
    case False
    then show ?thesis using Inr by (simp add: fetchCapacity_def fired_from_def)
  qed
qed

lemma run_emitted_once:
  "distinct emitted \<Longrightarrow> set emitted \<subseteq> warningsShown m \<Longrightarrow>
   distinct (snd (run evs (m, emitted))) \<and> set (snd (run evs (m, emitted))) \<subseteq> warningsShown (fst (run evs (m, emitted)))"
proof (induction evs arbitrary: m emitted)
  case Nil
  then show ?case by simp
next
  case (Cons ev evs)
  show ?case
  proof (cases ev)
    case (Refresh response)
    let ?r = "fetchCapacity response m"
    have f: "fired_from (warningsShown m) (fst (snd ?r), warningsShown (snd (snd ?r)))"
      by (rule fetchCapacity_fired_from)
    have d: "distinct (emitted @ map fst (fst (snd ?r)))"
      using f Cons.prems by (auto simp: fired_from_def)
    have s: "set (emitted @ map fst (fst (snd ?r))) \<subseteq> warningsShown (snd (snd ?r))"
      using f Cons.prems by (auto simp: fired_from_def)
    from Cons.IH [OF d s] show ?thesis using Refresh by (simp add: Let_def)
  next
    case ResetWarnings
    have "distinct ([]::string list)" "set [] \<subseteq> warningsShown (resetWarnings m)" by simp_all
    from Cons.IH [OF this] show ?thesis using ResetWarnings by simp
  qed
qed

text \<open>
  Claim C2. In every history of refreshes and resets, the keys emitted since the last
  reset are pairwise different. One evaluation over a held snapshot emits exactly the
  threshold keys the snapshot is above that are not yet in the fired-set, each once,
  and records them; a key in the fired-set is skipped, whatever the utilization did
  in between. After \<open>resetWarnings\<close> the evaluation emits every key the snapshot is
  above again.
\<close>

theorem warnings_fire_once:
  "distinct (snd (run evs (m, [])))
   \<and> (currentCapacity m = Some s \<longrightarrow>
        distinct (map fst (fst (checkWarnings m)))
        \<and> set (map fst (fst (checkWarnings m))) = crossed_keys s - warningsShown m
        \<and> warningsShown (snd (checkWarnings m)) = warningsShown m \<union> crossed_keys s
        \<and> set (map fst (fst (checkWarnings (resetWarnings m)))) = crossed_keys s)"
proof (intro conjI impI)
  show "distinct (snd (run evs (m, [])))"
    using run_emitted_once [of "[]" m evs] by simp
next
  assume s: "currentCapacity m = Some s"
  note f = checkWarnings_snapshot(1) [OF s] and w = checkWarnings_snapshot(2) [OF s]
  show "distinct (map fst (fst (checkWarnings m)))"
    using f by (simp add: fired_from_def)
  show "set (map fst (fst (checkWarnings m))) = crossed_keys s - warningsShown m"
    using f w unfolding fired_from_def fst_conv snd_conv by blast
  show "warningsShown (snd (checkWarnings m)) = warningsShown m \<union> crossed_keys s"
    by (rule w)
  have s': "currentCapacity (resetWarnings m) = Some s" using s by (simp add: resetWarnings_def)
  note f' = checkWarnings_snapshot(1) [OF s'] and w' = checkWarnings_snapshot(2) [OF s']
  have "warningsShown (resetWarnings m) = {}" by (simp add: resetWarnings_def)
  with f' w' show "set (map fst (fst (checkWarnings (resetWarnings m)))) = crossed_keys s"
    unfolding fired_from_def fst_conv snd_conv by simp
qed


text \<open>The specification's scenario: the busy snapshot, a quiet one, a failed fetch
  and the busy one again emit three keys once; after a reset they are emitted again;
  and with \<open>clicks_80\<close> already fired only the two tier keys are emitted.\<close>

theorem warnings_fire_once_witness:
  "snd (run [Refresh (Inr \<lparr>cr_success = True, cr_capacity = Some busy_snapshot\<rparr>),
             Refresh (Inr \<lparr>cr_success = True, cr_capacity = Some quiet_snapshot\<rparr>),
             Refresh (Inl NetworkError),
             Refresh (Inr \<lparr>cr_success = True, cr_capacity = Some busy_snapshot\<rparr>)]
            (new_monitor, []))
     = [''clicks_80'', ''tier_PRO_90'', ''tier_PRO_98'']
   \<and> snd (run [Refresh (Inr \<lparr>cr_success = True, cr_capacity = Some busy_snapshot\<rparr>),
               ResetWarnings,
               Refresh (Inr \<lparr>cr_success = True, cr_capacity = Some busy_snapshot\<rparr>)]
              (new_monitor, []))
     = [''clicks_80'', ''tier_PRO_90'', ''tier_PRO_98'']
   \<and> map fst (fst (checkWarnings
          \<lparr>currentCapacity = Some busy_snapshot, warningsShown = {''clicks_80''}\<rparr>))
     = [''tier_PRO_90'', ''tier_PRO_98'']
   \<and> crossed_keys busy_snapshot = {''clicks_80'', ''tier_PRO_90'', ''tier_PRO_98''}"
  using warnings_fire_once
    [of "[Refresh (Inr \<lparr>cr_success = True, cr_capacity = Some busy_snapshot\<rparr>),
             Refresh (Inr \<lparr>cr_success = True, cr_capacity = Some quiet_snapshot\<rparr>),
             Refresh (Inl NetworkError),
             Refresh (Inr \<lparr>cr_success = True, cr_capacity = Some busy_snapshot\<rparr>)]"
        "\<lparr>currentCapacity = Some busy_snapshot, warningsShown = {''clicks_80''}\<rparr>"
        busy_snapshot]
  by (simp add: new_monitor_def fetchCapacity_def checkWarnings_def check_clicks_def fire_def
      clickPercent_def js_div_def resetWarnings_def busy_snapshot_def quiet_snapshot_def
      crossed_keys_def Let_def insert_commute)

subsection \<open>Each kind of cached value under its own keys\<close>

text \<open>The manager starts with an empty cache and stores tier statuses only under
  \<open>tier_\<close> keys and capacities only under \<open>capacity_\<close> keys. So a hit under a
  \<open>tier_\<close> key is a tier status and a hit under a \<open>capacity_\<close> key is a capacity: the
  branches of \<open>getCurrentTier\<close> and \<open>checkTierCapacity\<close> for a hit of the other kind
  are never taken.\<close>

lemma empty_cache_kinds: "cache st = Map.empty \<Longrightarrow> cache_kinds st"
  by (simp add: cache_kinds_def)

lemma clearCache_kinds: "cache_kinds (clearCache st)"
  by (simp add: cache_kinds_def clearCache_def)

lemma getCached_kinds: "cache_kinds st \<Longrightarrow> cache_kinds (snd (getCached key st))"
  by (auto simp: cache_kinds_def getCached_def split: option.splits if_splits)

lemma setCached_kinds: "cache_kinds st \<Longrightarrow> kind_ok key v \<Longrightarrow> cache_kinds (setCached key v ttl st)"
  by (auto simp: cache_kinds_def setCached_def)

lemma clock_kinds: "cache_kinds (st\<lparr>clock := t\<rparr>) = cache_kinds st"
  by (simp add: cache_kinds_def)

lemma cache_kindsD: "cache_kinds st \<Longrightarrow> cache st key = Some e \<Longrightarrow> kind_ok key (cached_value e)"
  by (simp add: cache_kinds_def)

lemma tier_key_hit:
  assumes "cache_kinds st"
  shows "fst (getCached (''tier_'' @ a) st) \<noteq> Some (TierCapacity c)"
proof
  assume "fst (getCached (''tier_'' @ a) st) = Some (TierCapacity c)"
  then obtain e where "cache st (''tier_'' @ a) = Some e" and "cached_value e = TierCapacity c"
    by (auto simp: getCached_def split: option.splits if_splits)
  with cache_kindsD [OF assms] have "kind_ok (''tier_'' @ a) (TierCapacity c)" by metis
  then show False by (simp add: kind_ok_def)
qed

lemma capacity_key_hit:
  assumes "cache_kinds st"
  shows "fst (getCached (''capacity_'' @ n) st) \<noteq> Some (TierStatus t)"
proof
  assume "fst (getCached (''capacity_'' @ n) st) = Some (TierStatus t)"
  then obtain e where "cache st (''capacity_'' @ n) = Some e" and "cached_value e = TierStatus t"
    by (auto simp: getCached_def split: option.splits if_splits)
  with cache_kindsD [OF assms] have "kind_ok (''capacity_'' @ n) (TierStatus t)" by metis
  then show False by (simp add: kind_ok_def)
qed

lemma getCurrentTier_kinds:
  "cache_kinds st \<Longrightarrow> cache_kinds (snd (getCurrentTier be affiliateId st))"
  by (auto simp: getCurrentTier_def Let_def clock_kinds kind_ok_def
      intro!: setCached_kinds getCached_kinds
      split: option.splits cached.splits sum.splits)

lemma checkTierCapacity_kinds:
  "cache_kinds st \<Longrightarrow> cache_kinds (snd (checkTierCapacity be tierName st))"
  by (auto simp: checkTierCapacity_def Let_def clock_kinds kind_ok_def
      intro!: setCached_kinds getCached_kinds
      split: option.splits cached.splits sum.splits)

subsection \<open>The cache\<close>

text \<open>
  Claim C9. \<open>getCached\<close> returns the stored value exactly when the key has an entry
  and the clock is before the entry's expiry; otherwise it returns nothing and the key
  has no entry afterwards. \<open>setCached\<close> stores or overwrites the entry with expiry
  \<open>clock + ttl\<close>, with \<open>cacheTTL\<close> for a \<open>ttl\<close> left out, so a read at time \<open>now\<close> after
  it returns the value when \<open>now < expiry\<close> and evicts the entry otherwise.
  \<open>clearCache\<close> leaves no entry, whatever the expiries were.
\<close>

theorem cache_get_set_clear:
  "fst (getCached key st) =
     (case cache st key of
        None \<Rightarrow> None
      | Some e \<Rightarrow> if clock st < expiry e then Some (cached_value e) else None)
   \<and> snd (getCached key st) =
     (if fst (getCached key st) = None then st\<lparr>cache := (cache st)(key := None)\<rparr> else st)
   \<and> (let expiry = clock st + (case ttl of None \<Rightarrow> cacheTTL | Some t \<Rightarrow> t);
           stored = setCached key v ttl st;
           r = getCached key (stored\<lparr>clock := now\<rparr>)
       in cache stored = (cache st)(key \<mapsto> \<lparr>cached_value = v, expiry = expiry\<rparr>)
          \<and> (now < expiry \<longrightarrow> fst r = Some v \<and> snd r = stored\<lparr>clock := now\<rparr>)
          \<and> (\<not> now < expiry \<longrightarrow> fst r = None \<and> cache (snd r) = (cache st)(key := None)))
   \<and> cache (clearCache st) = Map.empty
   \<and> fst (getCached key ((clearCache st)\<lparr>clock := now\<rparr>)) = None"
  by (auto simp: getCached_def setCached_def clearCache_def Let_def fun_upd_idem
      split: option.splits)

text \<open>A value set at time 0 with a \<open>ttl\<close> of 100 ms is there at 50 ms and gone at
  150 ms; with the default \<open>ttl\<close> it is there just before 300000 ms and gone at it.\<close>

theorem cache_get_set_clear_witness:
  "fst (getCached ''k'' ((setCached ''k'' (TierCapacity no_capacity) (Some 100)
          scenario_manager)\<lparr>clock := 50\<rparr>))
     = Some (TierCapacity no_capacity)
   \<and> fst (getCached ''k'' ((setCached ''k'' (TierCapacity no_capacity) (Some 100)
          scenario_manager)\<lparr>clock := 150\<rparr>))
     = None
   \<and> fst (getCached ''k'' ((setCached ''k'' (TierCapacity no_capacity) None
          scenario_manager)\<lparr>clock := 299999\<rparr>))
     = Some (TierCapacity no_capacity)
   \<and> fst (getCached ''k'' ((setCached ''k'' (TierCapacity no_capacity) None
          scenario_manager)\<lparr>clock := 300000\<rparr>))
     = None"
  using cache_get_set_clear [of "''k''" scenario_manager "Some 100" "TierCapacity no_capacity" 50]
    cache_get_set_clear [of "''k''" scenario_manager "Some 100" "TierCapacity no_capacity" 150]
    cache_get_set_clear [of "''k''" scenario_manager None "TierCapacity no_capacity" 299999]
    cache_get_set_clear [of "''k''" scenario_manager None "TierCapacity no_capacity" 300000]
  by (simp add: Let_def cacheTTL_def scenario_manager_def)

subsection \<open>Admission decisions\<close>

text \<open>The affiliate id is resolved once; passing the resolved id on resolves to the
  same id.\<close>

lemma getCurrentTier_affiliate_arg:
  "getCurrentTier be (affiliate_arg affiliateId st) st = getCurrentTier be affiliateId st"
  by (cases affiliateId; cases "currentAffiliateId st")
    (simp_all add: getCurrentTier_def affiliate_arg_def)

lemma scenario_tier_known:
  "fst (getCurrentTier scenario_backend None scenario_manager) = Some (tierData_of scenario_reply)"
  by (simp add: getCurrentTier_def scenario_backend_def scenario_manager_def scenario_reply_def
      affiliate_arg_def getCached_def Let_def)

text \<open>
  Claim C7. When the affiliate's tier status \<open>t\<close> is known, \<open>isActionAllowed\<close> refuses a
  \<open>click\<close> exactly when \<open>clicksRemaining t \<le> 0\<close>, with the reason
  \<open>Daily click limit reached\<close> and the current and limit counters; it allows a \<open>click\<close>
  otherwise, always allows a \<open>sale\<close>, and allows every other action.
\<close>

theorem isActionAllowed_decision:
  "fst (getCurrentTier be affiliateId st) = Some t \<Longrightarrow>
   (let d = fst (isActionAllowed be action affiliateId st) in
      (action = ''click'' \<and> clicksRemaining t \<le> 0 \<longrightarrow>
         \<not> allowed d \<and> reason d = Some ''Daily click limit reached''
         \<and> d_current d = Some (clicksToday t) \<and> d_limit d = Some (clicksLimit t))
      \<and> (action = ''click'' \<and> 0 < clicksRemaining t \<longrightarrow> allowed d \<and> reason d = None)
      \<and> (action = ''sale'' \<longrightarrow> allowed d \<and> reason d = None)
      \<and> (action \<noteq> ''click'' \<and> action \<noteq> ''sale'' \<longrightarrow> allowed d \<and> reason d = None))"
  by (simp add: isActionAllowed_def getCurrentTier_affiliate_arg decide_def Let_def)

theorem isActionAllowed_decision_witness:
  "\<not> allowed (fst (isActionAllowed scenario_backend ''click'' None scenario_manager))
   \<and> reason (fst (isActionAllowed scenario_backend ''click'' None scenario_manager))
       = Some ''Daily click limit reached''
   \<and> allowed (fst (isActionAllowed scenario_backend ''sale'' None scenario_manager))
   \<and> allowed (fst (isActionAllowed scenario_backend ''refund'' None scenario_manager))"
proof -
  have r: "clicksRemaining (tierData_of scenario_reply) \<le> 0"
    by (simp add: scenario_reply_def tierData_of_def or_default_def)
  show ?thesis
    using isActionAllowed_decision [OF scenario_tier_known, of "''click''"]
      isActionAllowed_decision [OF scenario_tier_known, of "''sale''"]
      isActionAllowed_decision [OF scenario_tier_known, of "''refund''"] r
    by (simp add: Let_def)
qed

text \<open>
  Claim C6. Let the affiliate's tier status \<open>t\<close> be known with a next tier \<open>nxt\<close>, let
  \<open>required\<close> be the sales its tier requires for the upgrade, and \<open>cap\<close> the capacity
  \<open>checkTierCapacity\<close> reports for \<open>nxt\<close>. With fewer sales than required \<open>canUpgrade\<close>
  refuses with the shortfall. With enough sales and no slot available it refuses with
  the tier-full answer, which carries the waitlist flag and is a different answer from
  the shortfall one. It answers that the upgrade is possible exactly when the sales
  suffice and a slot is available.
\<close>

theorem canUpgrade_conditions:
  assumes "fst (getCurrentTier be affiliateId st) = Some t"
    and "nextTier t = Some nxt" and "nxt \<noteq> []"
  shows
   "(let required = to_number (salesRequiredForUpgrade (tierInfo t));
         cap = fst (checkTierCapacity be nxt (snd (getCurrentTier be affiliateId st)));
         e = fst (canUpgrade be affiliateId st)
     in (totalSales t < required \<longrightarrow>
           e = NeedMoreSales (salesRequiredForUpgrade (tierInfo t)) (totalSales t)
                 (required - totalSales t))
        \<and> (required \<le> totalSales t \<and> available cap \<le> 0 \<longrightarrow>
              e = TierCurrentlyFull nxt \<and> waitlist e)
        \<and> (required \<le> totalSales t \<and> 0 < available cap \<longrightarrow>
              e = Eligible (tier t) nxt (salesRequiredForUpgrade (tierInfo t)) (totalSales t))
        \<and> can_upgrade e = (required \<le> totalSales t \<and> 0 < available cap))"
  using assms
  by (auto simp: canUpgrade_def getCurrentTier_affiliate_arg Let_def)

text \<open>An \<open>ACTIVE\<close> affiliate with 60 sales (50 required) and \<open>PRO\<close> with no slot
  available: the answer is the tier-full one.\<close>

theorem canUpgrade_conditions_witness:
  "fst (canUpgrade scenario_backend None scenario_manager) = TierCurrentlyFull ''PRO''"
proof -
  let ?t = "tierData_of scenario_reply"
  have n: "nextTier ?t = Some ''PRO''" by (simp add: scenario_reply_def tierData_of_def)
  have ne: "''PRO'' \<noteq> []" by simp
  have s: "to_number (salesRequiredForUpgrade (tierInfo ?t)) \<le> totalSales ?t"
    by (simp add: scenario_reply_def tierData_of_def or_default_def tier_info_or_newbie_def
        TIERS_def ACTIVE_def)
  have c: "available (fst (checkTierCapacity scenario_backend ''PRO''
              (snd (getCurrentTier scenario_backend None scenario_manager)))) \<le> 0"
    by (simp add: getCurrentTier_def checkTierCapacity_def scenario_backend_def
        scenario_manager_def scenario_reply_def scenario_snapshot_def scenario_tiers_def
        affiliate_arg_def getCached_def setCached_def tiers_of_reply_def Let_def)
  show ?thesis
    using canUpgrade_conditions [OF scenario_tier_known n ne] s c
    by (simp add: Let_def)
qed

subsection \<open>Backend failures\<close>

lemma tier_failed_case:
  "tier_fetch_failed r \<Longrightarrow>
   (case r of Inl e \<Rightarrow> x | Inr data \<Rightarrow> if tr_success data then y data else x) = x"
  by (auto simp: tier_fetch_failed_def split: sum.splits)

lemma capacity_failed_case:
  "capacity_fetch_failed r \<Longrightarrow>
   (case r of Inl e \<Rightarrow> x | Inr data \<Rightarrow> if cr_success data then y data else x) = x"
  by (auto simp: capacity_fetch_failed_def split: sum.splits)

lemma upgrade_failed_case:
  "upgrade_fetch_failed r \<Longrightarrow>
   u_success (fst (case r of Inl e \<Rightarrow> (x, s1)
                   | Inr data \<Rightarrow> if ur_success data then y data else (z data, s2))) =
   u_success (case r of Inl e \<Rightarrow> x | Inr data \<Rightarrow> z data)"
  by (auto simp: upgrade_fetch_failed_def split: sum.splits)

lemma fetchCapacity_failed:
  "capacity_fetch_failed response \<Longrightarrow> fetchCapacity response m = (None, [], m)"
  by (auto simp: fetchCapacity_def capacity_fetch_failed_def split: sum.splits)

lemma getCurrentTier_failed:
  assumes "\<forall>a now. tier_fetch_failed (fst (getTierStatus be a now))"
  shows "fst (getCurrentTier be affiliateId st) =
     (case affiliate_arg affiliateId st of
        None \<Rightarrow> None
      | Some a \<Rightarrow>
          if a = [] then None
          else (case fst (getCached (''tier_'' @ a) st) of
                  Some (TierStatus t) \<Rightarrow> Some t
                | _ \<Rightarrow> None))"
  by (simp add: getCurrentTier_def Let_def tier_failed_case [OF assms [rule_format]]
      split: option.splits cached.splits)

lemma checkTierCapacity_failed:
  assumes "\<forall>now. capacity_fetch_failed (fst (getCapacity be now))"
  shows "fst (checkTierCapacity be tierName st) =
     (case fst (getCached (''capacity_'' @ tierName) st) of
        Some (TierCapacity c) \<Rightarrow> c
      | _ \<Rightarrow> no_capacity)"
  by (simp add: checkTierCapacity_def Let_def capacity_failed_case [OF assms [rule_format]]
      split: option.splits cached.splits)

lemma getAllTierCapacities_failed:
  assumes "\<forall>now. capacity_fetch_failed (fst (getCapacity be now))"
  shows "fst (getAllTierCapacities be st) = []"
  by (simp add: getAllTierCapacities_def Let_def capacity_failed_case [OF assms [rule_format]])

lemma requestUpgrade_failed:
  assumes "\<forall>a now. upgrade_fetch_failed (fst (upgradeTier be a now))"
  shows "\<not> u_success (fst (requestUpgrade be affiliateId st))"
proof (cases "can_upgrade (fst (canUpgrade be (affiliate_arg affiliateId st) st))")
  case False
  then show ?thesis by (simp add: requestUpgrade_def Let_def)
next
  case True
  have "\<And>a now. upgrade_fetch_failed (fst (upgradeTier be a now))" using assms by simp
  then show ?thesis using True
    by (simp add: requestUpgrade_def Let_def upgrade_failed_case split: sum.splits)
qed

text \<open>
  Claim C8. Every exception of a fetch is a value that the method's own \<open>catch\<close>
  turns into a return value, so each method returns a result. When the fetches fail
  (an exception, or \<open>success: false\<close>): \<open>fetchCapacity\<close> returns \<open>null\<close>, displays nothing
  and leaves the monitor, with its snapshot, as it was; \<open>getCurrentTier\<close> returns the
  tier status cached and not yet expired, and \<open>null\<close> without one; \<open>isActionAllowed\<close>
  decides from that cached status, and without one refuses with
  \<open>Unable to verify tier\<close>; \<open>canUpgrade\<close> without a tier status answers that no
  upgrade is possible; \<open>requestUpgrade\<close> reports no success; \<open>checkTierCapacity\<close>
  returns the cached capacity, and the zero capacity without one;
  \<open>getAllTierCapacities\<close> returns no tier and \<open>getAvailableTier\<close> returns \<open>null\<close>.
\<close>

theorem backend_failure_defaults:
  assumes "capacity_fetch_failed response"
    and "\<forall>now. capacity_fetch_failed (fst (getCapacity be now))"
    and "\<forall>a now. tier_fetch_failed (fst (getTierStatus be a now))"
    and "\<forall>a now. upgrade_fetch_failed (fst (upgradeTier be a now))"
  shows "fetchCapacity response m = (None, [], m)
   \<and> fst (getCurrentTier be affiliateId st) =
       (case affiliate_arg affiliateId st of
          None \<Rightarrow> None
        | Some a \<Rightarrow>
            if a = [] then None
            else (case fst (getCached (''tier_'' @ a) st) of
                    Some (TierStatus t) \<Rightarrow> Some t
                  | _ \<Rightarrow> None))
   \<and> fst (isActionAllowed be action affiliateId st) =
       (case fst (getCurrentTier be affiliateId st) of
          None \<Rightarrow> \<lparr>allowed = False, reason = Some ''Unable to verify tier'',
                    d_current = None, d_limit = None, d_remaining = None\<rparr>
        | Some t \<Rightarrow> decide action t)
   \<and> (fst (getCurrentTier be affiliateId st) = None \<longrightarrow>
        fst (canUpgrade be affiliateId st) = AlreadyAtMaxTier)
   \<and> \<not> u_success (fst (requestUpgrade be affiliateId st))
   \<and> fst (checkTierCapacity be tierName st) =
       (case fst (getCached (''capacity_'' @ tierName) st) of
          Some (TierCapacity c) \<Rightarrow> c
        | _ \<Rightarrow> no_capacity)
   \<and> fst (getAllTierCapacities be st) = []
   \<and> fst (getAvailableTier be st) = None"
proof (intro conjI)
  show "fetchCapacity response m = (None, [], m)"
    by (rule fetchCapacity_failed [OF assms(1)])
  show "fst (getCurrentTier be affiliateId st) =
       (case affiliate_arg affiliateId st of
          None \<Rightarrow> None
        | Some a \<Rightarrow>
            if a = [] then None
            else (case fst (getCached (''tier_'' @ a) st) of
                    Some (TierStatus t) \<Rightarrow> Some t
                  | _ \<Rightarrow> None))"
    by (rule getCurrentTier_failed [OF assms(3)])
  show "fst (isActionAllowed be action affiliateId st) =
       (case fst (getCurrentTier be affiliateId st) of
          None \<Rightarrow> \<lparr>allowed = False, reason = Some ''Unable to verify tier'',
                    d_current = None, d_limit = None, d_remaining = None\<rparr>
        | Some t \<Rightarrow> decide action t)"
    by (simp add: isActionAllowed_def getCurrentTier_affiliate_arg Let_def split: option.splits)
  show "fst (getCurrentTier be affiliateId st) = None \<longrightarrow>
        fst (canUpgrade be affiliateId st) = AlreadyAtMaxTier"
    by (simp add: canUpgrade_def getCurrentTier_affiliate_arg Let_def)
  show "\<not> u_success (fst (requestUpgrade be affiliateId st))"
    by (rule requestUpgrade_failed [OF assms(4)])
  show "fst (checkTierCapacity be tierName st) =
       (case fst (getCached (''capacity_'' @ tierName) st) of
          Some (TierCapacity c) \<Rightarrow> c
        | _ \<Rightarrow> no_capacity)"
    by (rule checkTierCapacity_failed [OF assms(2)])
  show "fst (getAllTierCapacities be st) = []"
    by (rule getAllTierCapacities_failed [OF assms(2)])
  then show "fst (getAvailableTier be st) = None"
    by (simp add: getAvailableTier_def Let_def)
qed

text \<open>With the backend down, a monitor that holds the busy snapshot keeps it, and a
  manager with an empty cache answers with the defaults.\<close>

theorem backend_failure_defaults_witness:
  "fetchCapacity (Inr \<lparr>cr_success = False, cr_capacity = None\<rparr>)
       \<lparr>currentCapacity = Some busy_snapshot, warningsShown = {''clicks_80''}\<rparr>
     = (None, [], \<lparr>currentCapacity = Some busy_snapshot, warningsShown = {''clicks_80''}\<rparr>)
   \<and> fst (getCurrentTier down_backend None scenario_manager) = None
   \<and> fst (isActionAllowed down_backend ''click'' None scenario_manager)
       = \<lparr>allowed = False, reason = Some ''Unable to verify tier'',
          d_current = None, d_limit = None, d_remaining = None\<rparr>
   \<and> fst (canUpgrade down_backend None scenario_manager) = AlreadyAtMaxTier
   \<and> \<not> u_success (fst (requestUpgrade down_backend None scenario_manager))
   \<and> fst (checkTierCapacity down_backend ''PRO'' scenario_manager) = no_capacity
   \<and> fst (getAvailableTier down_backend scenario_manager) = None"
proof -
  have 1: "capacity_fetch_failed (Inr \<lparr>cr_success = False, cr_capacity = None\<rparr>)"
    by (simp add: capacity_fetch_failed_def)
  have 2: "\<forall>now. capacity_fetch_failed (fst (getCapacity down_backend now))"
    by (simp add: capacity_fetch_failed_def down_backend_def)
  have 3: "\<forall>a now. tier_fetch_failed (fst (getTierStatus down_backend a now))"
    by (simp add: tier_fetch_failed_def down_backend_def)
  have 4: "\<forall>a now. upgrade_fetch_failed (fst (upgradeTier down_backend a now))"
    by (simp add: upgrade_fetch_failed_def down_backend_def)
  show ?thesis
    using backend_failure_defaults [OF 1 2 3 4,
        of "\<lparr>currentCapacity = Some busy_snapshot, warningsShown = {''clicks_80''}\<rparr>"
           None scenario_manager "''click''" "''PRO''"]
    by (simp add: affiliate_arg_def scenario_manager_def getCached_def)
qed

subsection \<open>The tier for a new signup\<close>

lemma first_available_none:
  "\<forall>(t, d) \<in> set ts. available d \<le> 0 \<Longrightarrow> first_available ts = None"
  by (induction ts) auto

lemma first_available_first:
  "\<exists>(t, d) \<in> set ts. 0 < available d \<Longrightarrow>
   \<exists>pre t d post. ts = pre @ (t, d) # post
      \<and> (\<forall>(t', d') \<in> set pre. available d' \<le> 0) \<and> 0 < available d
      \<and> first_available ts = Some \<lparr>ta_tier = t, ta_info = map_of TIERS t, ta_capacity = d\<rparr>"
proof (induction ts)
  case Nil
  then show ?case by simp
next
  case (Cons e rest)
  obtain t d where e: "e = (t, d)" by (cases e)
  show ?case
  proof (cases "0 < available d")
    case True
    have 1: "e # rest = [] @ (t, d) # rest" using e by simp
    have 2: "\<forall>(t', d') \<in> set []. available d' \<le> 0" by simp
    have 3: "first_available (e # rest) =
               Some \<lparr>ta_tier = t, ta_info = map_of TIERS t, ta_capacity = d\<rparr>"
      using e True by simp
    from 1 2 True 3 show ?thesis by blast
  next
    case False
    with Cons.prems e have "\<exists>(t, d) \<in> set rest. 0 < available d" by auto
    from Cons.IH [OF this] obtain pre t1 d1 post where
      split: "rest = pre @ (t1, d1) # post"
      and pre: "\<forall>(t', d') \<in> set pre. available d' \<le> 0"
      and pos: "0 < available d1"
      and r: "first_available rest =
                Some \<lparr>ta_tier = t1, ta_info = map_of TIERS t1, ta_capacity = d1\<rparr>"
      by blast
    have 1: "e # rest = (e # pre) @ (t1, d1) # post" using split by simp
    have 2: "\<forall>(t', d') \<in> set (e # pre). available d' \<le> 0" using pre e False by simp
    have 3: "first_available (e # rest) =
               Some \<lparr>ta_tier = t1, ta_info = map_of TIERS t1, ta_capacity = d1\<rparr>"
      using e False r by simp
    from 1 2 pos 3 show ?thesis by blast
  qed
qed

lemma getAvailableTier_success:
  assumes "fst (getCapacity be (clock st)) = Inr data" and "cr_success data"
    and "cr_capacity data = Some s"
  shows "fst (getAvailableTier be st) = first_available (tiers s)"
  using assms
  by (simp add: getAvailableTier_def getAllTierCapacities_def tiers_of_reply_def Let_def)

text \<open>
  Claim C3, as the code has it. When the backend answers with a snapshot,
  \<open>getAvailableTier\<close> visits the tiers in the order in which the answer's tiers object
  lists them and returns the first whose available count is above 0, with its
  configuration entry and its capacity; when no listed tier has an available count above
  0 it returns \<open>null\<close>. The configuration order plays no part.
\<close>

theorem getAvailableTier_reply_order:
  assumes "fst (getCapacity be (clock st)) = Inr data" and "cr_success data"
    and "cr_capacity data = Some s"
  shows "((\<forall>(t, d) \<in> set (tiers s). available d \<le> 0) \<longrightarrow> fst (getAvailableTier be st) = None)
   \<and> ((\<exists>(t, d) \<in> set (tiers s). 0 < available d) \<longrightarrow>
        (\<exists>pre t d post. tiers s = pre @ (t, d) # post
           \<and> (\<forall>(t', d') \<in> set pre. available d' \<le> 0) \<and> 0 < available d
           \<and> fst (getAvailableTier be st) =
               Some \<lparr>ta_tier = t, ta_info = map_of TIERS t, ta_capacity = d\<rparr>))"
  unfolding getAvailableTier_success [OF assms]
  using first_available_none [of "tiers s"] first_available_first [of "tiers s"]
  by blast

theorem getAvailableTier_reply_order_witness:
  "fst (getAvailableTier full_backend scenario_manager) = None
   \<and> (\<exists>pre t d post. scenario_tiers = pre @ (t, d) # post
           \<and> (\<forall>(t', d') \<in> set pre. available d' \<le> 0) \<and> 0 < available d
           \<and> fst (getAvailableTier scenario_backend scenario_manager) =
               Some \<lparr>ta_tier = t, ta_info = map_of TIERS t, ta_capacity = d\<rparr>)"
proof -
  have 1: "fst (getCapacity scenario_backend (clock scenario_manager)) =
             Inr \<lparr>cr_success = True, cr_capacity = Some scenario_snapshot\<rparr>"
    by (simp add: scenario_backend_def)
  have 2: "fst (getCapacity full_backend (clock scenario_manager)) =
             Inr \<lparr>cr_success = True, cr_capacity = Some full_snapshot\<rparr>"
    by (simp add: full_backend_def)
  have 3: "cr_success \<lparr>cr_success = True, cr_capacity = Some c\<rparr>" for c by simp
  have 4: "cr_capacity \<lparr>cr_success = True, cr_capacity = Some c\<rparr> = Some c" for c by simp
  have 5: "tiers scenario_snapshot = scenario_tiers" by (simp add: scenario_snapshot_def)
  have 6: "\<exists>(t, d) \<in> set scenario_tiers. 0 < available d" by (simp add: scenario_tiers_def)
  have 7: "\<forall>(t, d) \<in> set (tiers full_snapshot). available d \<le> 0"
    by (simp add: full_snapshot_def)
  show ?thesis
    using getAvailableTier_reply_order [OF 1 3 4] getAvailableTier_reply_order [OF 2 3 4] 6 7
    unfolding 5 by blast
qed

text \<open>
  Claim C3 as stated fails: the backend lists \<open>ACTIVE\<close> before \<open>NEWBIE\<close>, both with 50
  slots available; the code assigns \<open>ACTIVE\<close>, while the first tier in configuration
  order with a slot available is \<open>NEWBIE\<close>.
\<close>

theorem getAvailableTier_counterexample:
  "map_option ta_tier (fst (getAvailableTier scenario_backend scenario_manager)) = Some ''ACTIVE''
   \<and> spec_availableTierForSignup scenario_tiers = Some ''NEWBIE''"
  by (simp add: getAvailableTier_def getAllTierCapacities_def tiers_of_reply_def Let_def
      scenario_backend_def scenario_manager_def scenario_snapshot_def scenario_tiers_def
      spec_availableTierForSignup_def spec_available_def TIERS_def)

text \<open>When the answer lists exactly the configured tiers in configuration order, the
  code's scan is the specification's.\<close>

lemma first_available_configuration_order:
  assumes "map fst caps = map fst TIERS"
  shows "map_option ta_tier (first_available caps) = spec_availableTierForSignup caps"
proof -
  from assms obtain d1 d2 d3 d4 where
    "caps = [(''NEWBIE'', d1), (''ACTIVE'', d2), (''PRO'', d3), (''ELITE'', d4)]"
    by (auto simp: TIERS_def map_eq_Cons_conv)
  then show ?thesis
    by (simp add: spec_availableTierForSignup_def spec_available_def TIERS_def)
qed

end
